theory Spec2Isabelle
  imports Main
begin

section \<open>Errors\<close>

text \<open>
  A Go \<open>error\<close> is modelled by its message. A function that returns \<open>(x, err)\<close> becomes a
  function into \<open>error + 'a\<close>, with \<open>Inl\<close> for a non-nil \<open>err\<close>.
\<close>

datatype error = Error string

section \<open>The standard library's URL parser (net/url)\<close>

text \<open>
  \<open>getTargets\<close>, \<open>init\<close> and \<open>http.NewRequest\<close> all go through \<open>url.Parse\<close> of Go's
  standard library. The functions of this section follow net/url function by function
  (\<open>Parse\<close>, \<open>parse\<close>, \<open>getscheme\<close>, \<open>split\<close>, \<open>parseAuthority\<close>, \<open>parseHost\<close>,
  \<open>validOptionalPort\<close>, \<open>validUserinfo\<close>, \<open>unescape\<close>, \<open>shouldEscape\<close>), on strings as
  byte sequences. Two fields of \<open>url.URL\<close> that only steer re-encoding (\<open>RawPath\<close>,
  \<open>ForceQuery\<close>) are left out: nothing in this program reads them. The wrapping of an
  error into \<open>url.Error\<close> (operation and input added to the message) is left out as well:
  an error is its cause. The package is not part of this repository; the model follows
  its source as of Go 1.13 (with the check for control bytes and the check of the port
  after a host name).
\<close>

record URL =
  Scheme :: string
  Opaque :: string
  User :: "(string \<times> string option) option"
  Host :: string
  Path :: string
  RawQuery :: string
  Fragment :: string

definition empty_URL :: URL where
  "empty_URL = \<lparr>Scheme = [], Opaque = [], User = None, Host = [], Path = [],
     RawQuery = [], Fragment = []\<rparr>"

datatype encoding =
  encodePath | encodePathSegment | encodeHost | encodeZone | encodeUserPassword
  | encodeQueryComponent | encodeFragment

definition byte :: "char \<Rightarrow> nat" where
  "byte c = of_char c"

definition is_lower :: "char \<Rightarrow> bool" where
  "is_lower c = (97 \<le> byte c \<and> byte c \<le> 122)"

definition is_upper :: "char \<Rightarrow> bool" where
  "is_upper c = (65 \<le> byte c \<and> byte c \<le> 90)"

definition is_digit :: "char \<Rightarrow> bool" where
  "is_digit c = (48 \<le> byte c \<and> byte c \<le> 57)"

definition ishex :: "char \<Rightarrow> bool" where
  "ishex c = (is_digit c \<or> (97 \<le> byte c \<and> byte c \<le> 102) \<or> (65 \<le> byte c \<and> byte c \<le> 70))"

definition unhex :: "char \<Rightarrow> nat" where
  "unhex c =
     (if is_digit c then byte c - 48
      else if 97 \<le> byte c \<and> byte c \<le> 102 then byte c - 97 + 10
      else if 65 \<le> byte c \<and> byte c \<le> 70 then byte c - 65 + 10
      else 0)"

text \<open>\<open>strings.ToLower\<close>, on the ASCII letters (a scheme holds no other letters).\<close>

definition ToLower :: "string \<Rightarrow> string" where
  "ToLower s = map (\<lambda>c. if is_upper c then char_of (byte c + 32) else c) s"

definition HasPrefix :: "string \<Rightarrow> string \<Rightarrow> bool" where
  "HasPrefix s p = (take (length p) s = p)"

definition HasSuffix :: "string \<Rightarrow> string \<Rightarrow> bool" where
  "HasSuffix s p = (length p \<le> length s \<and> drop (length s - length p) s = p)"

text \<open>\<open>strings.Index\<close>: the first position at which \<open>sep\<close> starts, \<open>None\<close> for -1.\<close>

fun Index_from :: "nat \<Rightarrow> string \<Rightarrow> string \<Rightarrow> nat option" where
  "Index_from k [] sep = (if sep = [] then Some k else None)"
| "Index_from k (c # cs) sep =
     (if HasPrefix (c # cs) sep then Some k else Index_from (Suc k) cs sep)"

definition Index :: "string \<Rightarrow> string \<Rightarrow> nat option" where
  "Index s sep = Index_from 0 s sep"

text \<open>\<open>strings.LastIndex\<close> for a separator of one byte.\<close>

fun LastIndex_from :: "nat \<Rightarrow> string \<Rightarrow> char \<Rightarrow> nat option" where
  "LastIndex_from k [] c = None"
| "LastIndex_from k (x # xs) c =
     (case LastIndex_from (Suc k) xs c of
        Some i \<Rightarrow> Some i
      | None \<Rightarrow> if x = c then Some k else None)"

definition LastIndex :: "string \<Rightarrow> char \<Rightarrow> nat option" where
  "LastIndex s c = LastIndex_from 0 s c"

text \<open>\<open>split(s, c, cutc)\<close>: cut \<open>s\<close> at the first \<open>c\<close>, which is dropped when \<open>cutc\<close>.\<close>

definition url_split :: "string \<Rightarrow> string \<Rightarrow> bool \<Rightarrow> string \<times> string" where
  "url_split s c cutc =
     (case Index s c of
        None \<Rightarrow> (s, [])
      | Some i \<Rightarrow> if cutc then (take i s, drop (i + length c) s) else (take i s, drop i s))"

definition stringContainsCTLByte :: "string \<Rightarrow> bool" where
  "stringContainsCTLByte s = (\<exists>b \<in> set s. byte b < 32 \<or> byte b = 127)"

fun getscheme_from :: "string \<Rightarrow> nat \<Rightarrow> string \<Rightarrow> error + (string \<times> string)" where
  "getscheme_from rawurl i [] = Inr ([], rawurl)"
| "getscheme_from rawurl i (c # cs) =
     (if is_lower c \<or> is_upper c then getscheme_from rawurl (Suc i) cs
      else if is_digit c \<or> c = CHR ''+'' \<or> c = CHR ''-'' \<or> c = CHR ''.'' then
        (if i = 0 then Inr ([], rawurl) else getscheme_from rawurl (Suc i) cs)
      else if c = CHR '':'' then
        (if i = 0 then Inl (Error ''missing protocol scheme'')
         else Inr (take i rawurl, drop (Suc i) rawurl))
      else Inr ([], rawurl))"

definition getscheme :: "string \<Rightarrow> error + (string \<times> string)" where
  "getscheme rawurl = getscheme_from rawurl 0 rawurl"

text \<open>
  \<open>shouldEscape(c, encodeHost)\<close>, the one mode \<open>unescape\<close> calls it with: letters, digits,
  the host's sub-delimiters and the unreserved marks need no escape.
\<close>

definition shouldEscapeHost :: "char \<Rightarrow> bool" where
  "shouldEscapeHost c =
     (\<not> (is_lower c \<or> is_upper c \<or> is_digit c
        \<or> c \<in> set (''!$&()*+,;=:[]<>'' @ [CHR 0x27, CHR 0x22])
        \<or> c \<in> set ''-_.~''))"

text \<open>
  \<open>unescape\<close> makes two passes: the first checks every \<open>%\<close> escape and, in a host, every
  plain byte; the second decodes.
\<close>

fun unescape_check :: "encoding \<Rightarrow> string \<Rightarrow> error option" where
  "unescape_check mode [] = None"
| "unescape_check mode (c # cs) =
     (if c = CHR ''%'' then
        (case cs of
           a # b # rest \<Rightarrow>
             if \<not> ishex a \<or> \<not> ishex b then
               Some (Error (''invalid URL escape '' @ take 3 (c # cs)))
             else if mode = encodeHost \<and> unhex a < 8 \<and> [c, a, b] \<noteq> ''%25'' then
               Some (Error (''invalid URL escape '' @ [c, a, b]))
             else if mode = encodeZone \<and> [c, a, b] \<noteq> ''%25''
                  \<and> unhex a * 16 + unhex b \<noteq> 32
                  \<and> shouldEscapeHost (char_of (unhex a * 16 + unhex b)) then
               Some (Error (''invalid URL escape '' @ [c, a, b]))
             else unescape_check mode rest
         | _ \<Rightarrow> Some (Error (''invalid URL escape '' @ take 3 (c # cs))))
      else if (mode = encodeHost \<or> mode = encodeZone) \<and> byte c < 128 \<and> shouldEscapeHost c then
        Some (Error (''invalid character '' @ [c] @ '' in host name''))
      else unescape_check mode cs)"

fun unescape_decode :: "encoding \<Rightarrow> string \<Rightarrow> string" where
  "unescape_decode mode [] = []"
| "unescape_decode mode (c # cs) =
     (if c = CHR ''%'' then
        (case cs of
           a # b # rest \<Rightarrow> char_of (unhex a * 16 + unhex b) # unescape_decode mode rest
         | _ \<Rightarrow> c # unescape_decode mode cs)
      else if c = CHR ''+'' \<and> mode = encodeQueryComponent then
        CHR '' '' # unescape_decode mode cs
      else c # unescape_decode mode cs)"

definition unescape :: "string \<Rightarrow> encoding \<Rightarrow> error + string" where
  "unescape s mode =
     (case unescape_check mode s of
        Some e \<Rightarrow> Inl e
      | None \<Rightarrow> Inr (unescape_decode mode s))"

definition validOptionalPort :: "string \<Rightarrow> bool" where
  "validOptionalPort port =
     (case port of
        [] \<Rightarrow> True
      | c # ds \<Rightarrow> c = CHR '':'' \<and> (\<forall>b \<in> set ds. is_digit b))"

definition validUserinfo :: "string \<Rightarrow> bool" where
  "validUserinfo s =
     (\<forall>r \<in> set s. is_upper r \<or> is_lower r \<or> is_digit r
        \<or> r \<in> set (''-._:~!$&()*+,;=%@'' @ [CHR 0x27]))"

definition parseHost :: "string \<Rightarrow> error + string" where
  "parseHost host =
     (if HasPrefix host ''['' then
        (case LastIndex host (CHR '']'') of
           None \<Rightarrow> Inl (Error ''missing ] in host'')
         | Some i \<Rightarrow>
             if \<not> validOptionalPort (drop (i + 1) host) then
               Inl (Error (''invalid port '' @ drop (i + 1) host @ '' after host''))
             else
               (case Index (take i host) ''%25'' of
                  Some zone \<Rightarrow>
                    (case unescape (take zone host) encodeHost of
                       Inl e \<Rightarrow> Inl e
                     | Inr host1 \<Rightarrow>
                         (case unescape (drop zone (take i host)) encodeZone of
                            Inl e \<Rightarrow> Inl e
                          | Inr host2 \<Rightarrow>
                              (case unescape (drop i host) encodeHost of
                                 Inl e \<Rightarrow> Inl e
                               | Inr host3 \<Rightarrow> Inr (host1 @ host2 @ host3))))
                | None \<Rightarrow> unescape host encodeHost))
      else
        (case LastIndex host (CHR '':'') of
           Some i \<Rightarrow>
             if \<not> validOptionalPort (drop i host) then
               Inl (Error (''invalid port '' @ drop i host @ '' after host''))
             else unescape host encodeHost
         | None \<Rightarrow> unescape host encodeHost))"

definition parseAuthority :: "string \<Rightarrow> error + ((string \<times> string option) option \<times> string)" where
  "parseAuthority authority =
     (case LastIndex authority (CHR ''@'') of
        None \<Rightarrow>
          (case parseHost authority of
             Inl e \<Rightarrow> Inl e
           | Inr host \<Rightarrow> Inr (None, host))
      | Some i \<Rightarrow>
          (case parseHost (drop (i + 1) authority) of
             Inl e \<Rightarrow> Inl e
           | Inr host \<Rightarrow>
               let userinfo = take i authority in
               if \<not> validUserinfo userinfo then Inl (Error ''net/url: invalid userinfo'')
               else if Index userinfo '':'' = None then
                 (case unescape userinfo encodeUserPassword of
                    Inl e \<Rightarrow> Inl e
                  | Inr username \<Rightarrow> Inr (Some (username, None), host))
               else
                 (case url_split userinfo '':'' True of
                    (username0, password0) \<Rightarrow>
                      (case unescape username0 encodeUserPassword of
                         Inl e \<Rightarrow> Inl e
                       | Inr username \<Rightarrow>
                           (case unescape password0 encodeUserPassword of
                              Inl e \<Rightarrow> Inl e
                            | Inr password \<Rightarrow> Inr (Some (username, Some password), host))))))"

text \<open>
  \<open>parse(rawurl, viaRequest)\<close>. The steps in the source's order: control bytes, the empty
  and the \<open>*\<close> URL, the scheme, the query, the opaque and the relative forms, the
  authority, the path.
\<close>

definition setPath :: "URL \<Rightarrow> string \<Rightarrow> error + URL" where
  "setPath u p =
     (case unescape p encodePath of
        Inl e \<Rightarrow> Inl e
      | Inr path \<Rightarrow> Inr (u\<lparr>Path := path\<rparr>))"

definition parse_authority_path :: "URL \<Rightarrow> string \<Rightarrow> bool \<Rightarrow> error + URL" where
  "parse_authority_path u rest viaRequest =
     (if (Scheme u \<noteq> [] \<or> \<not> viaRequest \<and> \<not> HasPrefix rest ''///'') \<and> HasPrefix rest ''//'' then
        (case url_split (drop 2 rest) ''/'' False of
           (authority, rest') \<Rightarrow>
             (case parseAuthority authority of
                Inl e \<Rightarrow> Inl e
              | Inr (user, host) \<Rightarrow> setPath (u\<lparr>User := user, Host := host\<rparr>) rest'))
      else setPath u rest)"

definition url_parse :: "string \<Rightarrow> bool \<Rightarrow> error + URL" where
  "url_parse rawurl viaRequest =
     (if stringContainsCTLByte rawurl then
        Inl (Error ''net/url: invalid control character in URL'')
      else if rawurl = [] \<and> viaRequest then Inl (Error ''empty url'')
      else if rawurl = ''*'' then Inr (empty_URL\<lparr>Path := ''*''\<rparr>)
      else
        (case getscheme rawurl of
           Inl e \<Rightarrow> Inl e
         | Inr (scheme, rest0) \<Rightarrow>
             let u0 = empty_URL\<lparr>Scheme := ToLower scheme\<rparr>;
                 (rest, u) =
                   (if HasSuffix rest0 ''?'' \<and> length (filter (\<lambda>c. c = CHR ''?'') rest0) = 1
                    then (butlast rest0, u0)
                    else (case url_split rest0 ''?'' True of
                            (r, q) \<Rightarrow> (r, u0\<lparr>RawQuery := q\<rparr>)))
             in
               if \<not> HasPrefix rest ''/'' then
                 (if Scheme u \<noteq> [] then Inr (u\<lparr>Opaque := rest\<rparr>)
                  else if viaRequest then Inl (Error ''invalid URI for request'')
                  else
                    (case Index rest '':'' of
                       Some colon \<Rightarrow>
                         (case Index rest ''/'' of
                            None \<Rightarrow> Inl (Error ''first path segment in URL cannot contain colon'')
                          | Some slash \<Rightarrow>
                              if colon < slash then
                                Inl (Error ''first path segment in URL cannot contain colon'')
                              else parse_authority_path u rest viaRequest)
                     | None \<Rightarrow> parse_authority_path u rest viaRequest))
               else parse_authority_path u rest viaRequest))"

definition url_Parse :: "string \<Rightarrow> error + URL" where
  "url_Parse rawurl =
     (case url_split rawurl ''#'' True of
        (u, frag) \<Rightarrow>
          (case url_parse u False of
             Inl e \<Rightarrow> Inl e
           | Inr url \<Rightarrow>
               if frag = [] then Inr url
               else
                 (case unescape frag encodeFragment of
                    Inl e \<Rightarrow> Inl e
                  | Inr f \<Rightarrow> Inr (url\<lparr>Fragment := f\<rparr>))))"

section \<open>Data model (main.go)\<close>

text \<open>
  \<open>Node\<close> is one entry of the inventory's answer. Its \<open>Exporters\<close> is a Go map from job name
  to exporter URL; \<open>range\<close> over a Go map visits every entry once, in an order that changes
  from run to run. The model keeps the entries as the list \<open>range\<close> yields them in the
  run at hand: a list of pairs whose keys are distinct (\<open>wf_Node\<close>).
\<close>

record Node =
  Certname :: string
  Exporters :: "(string \<times> string) list"

definition wf_Node :: "Node \<Rightarrow> bool" where
  "wf_Node node = distinct (map fst (Exporters node))"

record StaticConfig =
  Targets :: "string list"
  Labels :: "string \<rightharpoonup> string"

section \<open>The Target Mapper: the loops of getTargets\<close>

text \<open>The struct literal of the loop body (main.go, lines 140 to 149).\<close>

definition staticConfig :: "Node \<Rightarrow> string \<Rightarrow> URL \<Rightarrow> StaticConfig" where
  "staticConfig node jobName url =
     \<lparr>Targets = [Host url],
      Labels = [''certname'' \<mapsto> Certname node,
                ''host'' \<mapsto> Certname node,
                ''metrics_path'' \<mapsto> Path url,
                ''job'' \<mapsto> jobName,
                ''scheme'' \<mapsto> Scheme url]\<rparr>"

text \<open>
  The inner loop, \<open>for jobName, target := range node.Exporters\<close>: a URL that does not parse
  leaves the function at once with \<open>return nil, err\<close>; otherwise one entry is appended to
  \<open>fileSdConfig\<close>.
\<close>

fun range_Exporters :: "Node \<Rightarrow> (string \<times> string) list \<Rightarrow> StaticConfig list
    \<Rightarrow> error + StaticConfig list" where
  "range_Exporters node [] fileSdConfig = Inr fileSdConfig"
| "range_Exporters node ((jobName, target) # rest) fileSdConfig =
     (case url_Parse target of
        Inl err \<Rightarrow> Inl err
      | Inr url \<Rightarrow> range_Exporters node rest (fileSdConfig @ [staticConfig node jobName url]))"

text \<open>The outer loop, \<open>for _, node := range nodes\<close>.\<close>

fun range_nodes :: "Node list \<Rightarrow> StaticConfig list \<Rightarrow> error + StaticConfig list" where
  "range_nodes [] fileSdConfig = Inr fileSdConfig"
| "range_nodes (node # nodes) fileSdConfig =
     (case range_Exporters node (Exporters node) fileSdConfig of
        Inl err \<Rightarrow> Inl err
      | Inr fileSdConfig' \<Rightarrow> range_nodes nodes fileSdConfig')"

text \<open>
  The mapper as a whole: \<open>fileSdConfig := []StaticConfig{}\<close>, then the two loops.
\<close>

definition mapTargets :: "Node list \<Rightarrow> error + StaticConfig list" where
  "mapTargets nodes = range_nodes nodes []"

text \<open>The (node, exporter) pairs of an inventory, in the order the loops visit them.\<close>

definition exporter_pairs :: "Node list \<Rightarrow> (Node \<times> string \<times> string) list" where
  "exporter_pairs nodes = concat (map (\<lambda>node. map (\<lambda>e. (node, e)) (Exporters node)) nodes)"

definition parses :: "string \<Rightarrow> bool" where
  "parses target = (case url_Parse target of Inl err \<Rightarrow> False | Inr url \<Rightarrow> True)"

text \<open>What the mapper emits for one pair whose URL parses.\<close>

definition emitted :: "Node \<times> string \<times> string \<Rightarrow> StaticConfig" where
  "emitted p =
     (case p of (node, jobName, target) \<Rightarrow>
        (case url_Parse target of
           Inr url \<Rightarrow> staticConfig node jobName url
         | Inl err \<Rightarrow> \<lparr>Targets = [], Labels = Map.empty\<rparr>))"

section \<open>Configuration, libraries and the outside world\<close>

text \<open>
  \<open>Config\<close> as \<open>loadConfig\<close> returns it; \<open>Sleep\<close> is a \<open>time.Duration\<close>, in nanoseconds. The
  flag parser itself (with \<open>--version\<close> and \<open>--manpage\<close>, which leave the process in
  \<open>loadConfig\<close>) is outside the model: it starts from the loaded \<open>cfg\<close>.
\<close>

record Config =
  Version :: bool
  PuppetDBURL :: string
  CertFile :: string
  KeyFile :: string
  CACertFile :: string
  SSLSkipVerify :: bool
  Query :: string
  Output :: string
  File :: string
  ConfigMap :: string
  NameSpace :: string
  Sleep :: int
  Manpage :: bool

text \<open>
  Library functions whose results the program only passes on are parameters:
  \<open>json.Unmarshal\<close> into \<open>[]Node\<close>, \<open>yaml.Marshal\<close> of \<open>[]StaticConfig\<close>, \<open>tls.X509KeyPair\<close>
  on the bytes of the two PEM files, and what \<open>fmt.Printf\<close> prints for a format string
  without operands.
\<close>

record lib =
  json_Unmarshal :: "string \<Rightarrow> error + Node list"
  yaml_Marshal :: "StaticConfig list \<Rightarrow> error + string"
  tls_X509KeyPair :: "string \<Rightarrow> string \<Rightarrow> error + string"
  fmt_Printf :: "string \<Rightarrow> string"

record Request =
  Method :: string
  RequestURL :: string
  Header :: "(string \<times> string) list"
  Body :: string

text \<open>
  A response as \<open>client.Do\<close> returns it: its status code, and what
  \<open>ioutil.ReadAll(resp.Body)\<close> gives (the bytes, or a read error).
\<close>

record Response =
  StatusCode :: nat
  ResponseBody :: "error + string"

record tlsConfig =
  Certificates :: "string list"
  RootCAs :: "string list"
  InsecureSkipVerify :: bool

record Client =
  TLSClientConfig :: "tlsConfig option"

text \<open>
  The cluster as the ConfigMap calls see it: the data of each ConfigMap by namespace and
  name, and whether the service account may write.
\<close>

record cluster =
  objects :: "(string \<times> string) \<rightharpoonup> (string \<rightharpoonup> string)"
  readonly :: bool

text \<open>
  The world the process runs in. \<open>replies\<close> holds the outcomes of the calls of
  \<open>client.Do\<close> to come, in order: an error, or the response that ends the call. The
  client follows redirects on its own, inside \<open>Do\<close>: what \<open>Do\<close> returns is the last
  response of such a chain, and only that one is in \<open>replies\<close>. \<open>requests\<close> is every
  request the program has sent through \<open>Do\<close> so far (the follow-up requests of the client
  are not listed). \<open>dirs\<close> and \<open>files\<close> are the directories and the files that exist, each
  under its cleaned absolute or relative path; there are no symbolic links. \<open>kube\<close> is
  \<open>None\<close> outside a cluster.
\<close>

record world =
  replies :: "(error + Response) list"
  requests :: "Request list"
  dirs :: "string set"
  files :: "string \<rightharpoonup> string"
  stdout :: string
  sleeps :: "int list"
  kube :: "cluster option"

datatype status = Exited nat | Panicked string | Running

definition dq :: char where
  "dq = CHR 0x22"

definition msg :: "error \<Rightarrow> string" where
  "msg e = (case e of Error m \<Rightarrow> m)"

subsection \<open>Paths and files (path/filepath, os, io/ioutil)\<close>

fun split_slash :: "string \<Rightarrow> string list" where
  "split_slash [] = [[]]"
| "split_slash (c # cs) =
     (if c = CHR ''/'' then [] # split_slash cs
      else (case split_slash cs of
              e # es \<Rightarrow> (c # e) # es
            | [] \<Rightarrow> [[c]]))"

fun join_slash :: "string list \<Rightarrow> string" where
  "join_slash [] = []"
| "join_slash [e] = e"
| "join_slash (e # es) = e @ ''/'' @ join_slash es"

text \<open>
  \<open>filepath.Clean\<close>, element by element: empty and \<open>.\<close> elements go; \<open>..\<close> removes the
  element before it, is dropped at the root, and is kept at the front of a relative path.
\<close>

fun clean_elems :: "bool \<Rightarrow> string list \<Rightarrow> string list \<Rightarrow> string list" where
  "clean_elems rooted [] out = out"
| "clean_elems rooted (e # es) out =
     (if e = [] \<or> e = ''.'' then clean_elems rooted es out
      else if e = ''..'' then
        (if out \<noteq> [] \<and> last out \<noteq> ''..'' then clean_elems rooted es (butlast out)
         else if \<not> rooted then clean_elems rooted es (out @ [''..''])
         else clean_elems rooted es out)
      else clean_elems rooted es (out @ [e]))"

definition render_path :: "bool \<Rightarrow> string list \<Rightarrow> string" where
  "render_path rooted es =
     (if rooted then ''/'' @ join_slash es
      else if es = [] then ''.''
      else join_slash es)"

definition filepath_Clean :: "string \<Rightarrow> string" where
  "filepath_Clean path =
     render_path (HasPrefix path ''/'') (clean_elems (HasPrefix path ''/'') (split_slash path) [])"

text \<open>\<open>filepath.Dir\<close>: all but the last element of the path, cleaned.\<close>

definition filepath_Dir :: "string \<Rightarrow> string" where
  "filepath_Dir path =
     filepath_Clean (take (case LastIndex path (CHR ''/'') of None \<Rightarrow> 0 | Some i \<Rightarrow> i + 1) path)"

text \<open>The cleaned path and every directory above it.\<close>

definition dir_chain :: "string \<Rightarrow> string list" where
  "dir_chain path =
     (let rooted = HasPrefix path ''/'';
          es = clean_elems rooted (split_slash path) []
      in map (\<lambda>k. render_path rooted (take k es)) [0 ..< Suc (length es)])"

text \<open>
  \<open>os.MkdirAll\<close>, on a cleaned path (\<open>main\<close> passes it the result of \<open>filepath.Dir\<close>, which
  is cleaned): fails, creating nothing, when the path or a directory above it is a file;
  otherwise the path and every directory above it exist afterwards.
\<close>

definition os_MkdirAll :: "string \<Rightarrow> world \<Rightarrow> error option \<times> world" where
  "os_MkdirAll path w =
     (if \<exists>d \<in> set (dir_chain path). files w d \<noteq> None then
        (Some (Error ''not a directory''), w)
      else (None, w\<lparr>dirs := dirs w \<union> set (dir_chain path)\<rparr>))"

text \<open>
  Opening a file goes through the path as it is written, element by element, and not
  through its cleaned form: every element that names a directory must exist when the walk
  reaches it, also one that a later \<open>..\<close> leaves again. \<open>walk_dirs\<close> lists the directories
  a walk enters; \<open>open_dirs\<close> are those on the way to the last element of a path.
\<close>

fun walk_dirs :: "bool \<Rightarrow> string list \<Rightarrow> string list \<Rightarrow> string list" where
  "walk_dirs rooted [] out = []"
| "walk_dirs rooted (e # es) out =
     (if e = [] \<or> e = ''.'' \<or> e = ''..'' then
        walk_dirs rooted es (clean_elems rooted [e] out)
      else render_path rooted (out @ [e]) # walk_dirs rooted es (out @ [e]))"

definition open_dirs :: "string \<Rightarrow> string list" where
  "open_dirs name = walk_dirs (HasPrefix name ''/'') (butlast (split_slash name)) []"

text \<open>A path whose last element is empty, \<open>.\<close> or \<open>..\<close> names a directory.\<close>

definition names_directory :: "string \<Rightarrow> bool" where
  "names_directory name =
     (last (split_slash name) = [] \<or> last (split_slash name) = ''.''
      \<or> last (split_slash name) = ''..'')"

text \<open>
  \<open>ioutil.WriteFile\<close>: creates or truncates the file and writes the data; fails when a
  directory on the way to the file does not exist, or the name is a directory. Once the
  walk has succeeded, the file it reaches is the one at the cleaned path.
\<close>

definition ioutil_WriteFile :: "string \<Rightarrow> string \<Rightarrow> world \<Rightarrow> error option \<times> world" where
  "ioutil_WriteFile name data w =
     (if \<exists>d \<in> set (open_dirs name). d \<notin> dirs w then
        (Some (Error ''no such file or directory''), w)
      else if names_directory name \<or> filepath_Clean name \<in> dirs w then
        (Some (Error ''is a directory''), w)
      else (None, w\<lparr>files := (files w)(filepath_Clean name \<mapsto> data)\<rparr>))"

definition ioutil_ReadFile :: "string \<Rightarrow> world \<Rightarrow> error + string" where
  "ioutil_ReadFile name w =
     (if \<exists>d \<in> set (open_dirs name). d \<notin> dirs w then
        Inl (Error ''no such file or directory'')
      else
        (case files w (filepath_Clean name) of
           None \<Rightarrow> Inl (Error ''no such file or directory'')
         | Some data \<Rightarrow> Inr data))"

definition time_Sleep :: "int \<Rightarrow> world \<Rightarrow> world" where
  "time_Sleep d w = w\<lparr>sleeps := sleeps w @ [d]\<rparr>"

subsection \<open>HTTP (net/http)\<close>

text \<open>
  \<open>http.NewRequest\<close> parses the URL with \<open>url.Parse\<close> and fails when that fails (the method
  is the constant POST, a valid method name).
\<close>

definition http_NewRequest :: "string \<Rightarrow> string \<Rightarrow> string \<Rightarrow> error + Request" where
  "http_NewRequest method url body =
     (case url_Parse url of
        Inl err \<Rightarrow> Inl err
      | Inr u \<Rightarrow> Inr \<lparr>Method = method, RequestURL = url, Header = [], Body = body\<rparr>)"

text \<open>
  \<open>removeEmptyPort\<close>, which \<open>http.NewRequest\<close> applies to the host of the parsed URL: a
  colon at the end of the host, with no port after it, is dropped.
\<close>

definition hasPort :: "string \<Rightarrow> bool" where
  "hasPort s =
     (case LastIndex s (CHR '':'') of
        None \<Rightarrow> False
      | Some i \<Rightarrow>
          (case LastIndex s (CHR '']'') of
             None \<Rightarrow> True
           | Some j \<Rightarrow> j < i))"

definition removeEmptyPort :: "string \<Rightarrow> string" where
  "removeEmptyPort host =
     (if hasPort host \<and> HasSuffix host '':'' then butlast host else host)"

text \<open>
  \<open>client.Do\<close>. The transport refuses a request before anything is sent when the scheme
  of its URL is neither \<open>http\<close> nor \<open>https\<close>, and when the URL has no host. Otherwise the
  request is sent, and the call ends with the next outcome the world holds.
\<close>

definition client_Do :: "Client \<Rightarrow> Request \<Rightarrow> world \<Rightarrow> (error + Response) \<times> world" where
  "client_Do client req w =
     (case url_Parse (RequestURL req) of
        Inl err \<Rightarrow> (Inl err, w)
      | Inr u \<Rightarrow>
          if Scheme u \<noteq> ''http'' \<and> Scheme u \<noteq> ''https'' then
            (Inl (Error ''unsupported protocol scheme''), w)
          else if removeEmptyPort (Host u) = [] then
            (Inl (Error ''http: no Host in request URL''), w)
          else
            (case replies w of
               [] \<Rightarrow> (Inl (Error ''connection refused''), w\<lparr>requests := requests w @ [req]\<rparr>)
             | r # rs \<Rightarrow> (r, w\<lparr>requests := requests w @ [req], replies := rs\<rparr>)))"

text \<open>A URL that \<open>http.NewRequest\<close> accepts and the transport does not refuse.\<close>

definition sendable :: "string \<Rightarrow> bool" where
  "sendable url =
     (case url_Parse url of
        Inl err \<Rightarrow> False
      | Inr u \<Rightarrow>
          (Scheme u = ''http'' \<or> Scheme u = ''https'') \<and> removeEmptyPort (Host u) \<noteq> [])"

section \<open>The Inventory Client: getNodes\<close>

text \<open>The body, \<open>fmt.Sprintf("{\"query\":\"%s\"}", query)\<close>: the query is inserted as it is.\<close>

definition query_form :: "string \<Rightarrow> string" where
  "query_form query = ''{'' @ [dq] @ ''query'' @ [dq] @ '':'' @ [dq] @ query @ [dq] @ ''}''"

definition getNodes :: "lib \<Rightarrow> Client \<Rightarrow> string \<Rightarrow> string \<Rightarrow> world
    \<Rightarrow> (error + Node list) \<times> world" where
  "getNodes L client puppetdb query w =
     (let form = query_form query;
          puppetdbURL = puppetdb @ ''/pdb/query/v4''
      in case http_NewRequest ''POST'' puppetdbURL form of
           Inl err \<Rightarrow> (Inl err, w)
         | Inr req0 \<Rightarrow>
             (let req = req0\<lparr>Header := Header req0 @ [(''Content-Type'', ''application/json'')]\<rparr>
              in case client_Do client req w of
                   (Inl err, w') \<Rightarrow> (Inl err, w')
                 | (Inr resp, w') \<Rightarrow>
                     (case ResponseBody resp of
                        Inl err \<Rightarrow> (Inl err, w')
                      | Inr body \<Rightarrow> (json_Unmarshal L body, w'))))"

section \<open>getTargets\<close>

text \<open>
  Fetch, map, serialize. \<open>Inl err\<close> is the return of \<open>(nil, err)\<close>: no bytes come with an
  error. The log lines (\<open>log.Errorf\<close>, \<open>log.Infof\<close>) are not part of the model.
\<close>

definition getTargets :: "lib \<Rightarrow> Client \<Rightarrow> Config \<Rightarrow> world \<Rightarrow> (error + string) \<times> world" where
  "getTargets L client cfg w =
     (case getNodes L client (PuppetDBURL cfg) (Query cfg) w of
        (Inl err, w') \<Rightarrow> (Inl err, w')
      | (Inr nodes, w') \<Rightarrow>
          (case mapTargets nodes of
             Inl err \<Rightarrow> (Inl err, w')
           | Inr fileSdConfig \<Rightarrow> (yaml_Marshal L fileSdConfig, w')))"

section \<open>Startup: init\<close>

text \<open>
  \<open>init\<close> after \<open>loadConfig\<close>. \<open>Inl\<close> is a call of \<open>log.Fatalf\<close> or \<open>log.Fatal\<close>: the message is
  logged and the process exits with code 1. \<open>init\<close> reads files and sends nothing.
\<close>

definition tls_LoadX509KeyPair :: "lib \<Rightarrow> string \<Rightarrow> string \<Rightarrow> world \<Rightarrow> error + string" where
  "tls_LoadX509KeyPair L certFile keyFile w =
     (case ioutil_ReadFile certFile w of
        Inl err \<Rightarrow> Inl err
      | Inr certPEM \<Rightarrow>
          (case ioutil_ReadFile keyFile w of
             Inl err \<Rightarrow> Inl err
           | Inr keyPEM \<Rightarrow> tls_X509KeyPair L certPEM keyPEM))"

text \<open>The block under \<open>if puppetdbURL.Scheme == "https"\<close>: the client with TLS.\<close>

definition https_client :: "lib \<Rightarrow> Config \<Rightarrow> world \<Rightarrow> error + Client" where
  "https_client L cfg w =
     (case tls_LoadX509KeyPair L (CertFile cfg) (KeyFile cfg) w of
        Inl err \<Rightarrow> Inl err
      | Inr cert \<Rightarrow>
          (case ioutil_ReadFile (CACertFile cfg) w of
             Inl err \<Rightarrow> Inl err
           | Inr caCert \<Rightarrow>
               Inr \<lparr>TLSClientConfig = Some \<lparr>Certificates = [cert], RootCAs = [caCert],
                      InsecureSkipVerify = SSLSkipVerify cfg\<rparr>\<rparr>))"

definition init :: "lib \<Rightarrow> Config \<Rightarrow> world \<Rightarrow> error + Client" where
  "init L cfg w =
     (case url_Parse (PuppetDBURL cfg) of
        Inl err \<Rightarrow> Inl (Error (''failed to parse PuppetDB URL: '' @ msg err))
      | Inr puppetdbURL \<Rightarrow>
          if Scheme puppetdbURL \<noteq> ''http'' \<and> Scheme puppetdbURL \<noteq> ''https'' then
            Inl (Error (Scheme puppetdbURL @ '' is not a valid http scheme'' @ [CHR 0x0A]))
          else if Scheme puppetdbURL = ''https'' then https_client L cfg w
          else Inr \<lparr>TLSClientConfig = None\<rparr>)"

section \<open>The poll loop: main\<close>

text \<open>
  Each of the three \<open>if\<close> blocks of \<open>main\<close> either ends the process (\<open>Some\<close> of its status)
  or lets control reach the next block (\<open>None\<close>). The two \<open>for\<close> loops have no exit of
  their own, so they take the number of cycles to run: when it is used up the process is
  still \<open>Running\<close>.
\<close>

definition main_stdout :: "lib \<Rightarrow> Client \<Rightarrow> Config \<Rightarrow> world \<Rightarrow> status option \<times> world" where
  "main_stdout L client cfg w =
     (case getTargets L client cfg w of
        (Inl err, w') \<Rightarrow> (Some (Exited 1), w')
      | (Inr c, w') \<Rightarrow> (None, w'\<lparr>stdout := stdout w' @ fmt_Printf L c\<rparr>))"

fun file_loop :: "nat \<Rightarrow> lib \<Rightarrow> Client \<Rightarrow> Config \<Rightarrow> world \<Rightarrow> status option \<times> world" where
  "file_loop 0 L client cfg w = (Some Running, w)"
| "file_loop (Suc n) L client cfg w =
     (case getTargets L client cfg w of
        (Inl err, w1) \<Rightarrow> (None, w1)
      | (Inr c, w1) \<Rightarrow>
          (case ioutil_WriteFile (File cfg) c w1 of
             (Some err, w2) \<Rightarrow> (Some (Exited 0), w2)
           | (None, w2) \<Rightarrow> file_loop n L client cfg (time_Sleep (Sleep cfg) w2)))"

definition main_file :: "nat \<Rightarrow> lib \<Rightarrow> Client \<Rightarrow> Config \<Rightarrow> world \<Rightarrow> status option \<times> world" where
  "main_file n L client cfg w =
     (case os_MkdirAll (filepath_Dir (File cfg)) w of
        (ignored, w') \<Rightarrow> file_loop n L client cfg w')"

definition configmap_Get :: "string \<Rightarrow> string \<Rightarrow> cluster \<Rightarrow> error + (string \<rightharpoonup> string)" where
  "configmap_Get ns name k =
     (case objects k (ns, name) of
        None \<Rightarrow> Inl (Error ''not found'')
      | Some d \<Rightarrow> Inr d)"

definition configmap_Create :: "string \<Rightarrow> string \<Rightarrow> (string \<rightharpoonup> string) \<Rightarrow> cluster
    \<Rightarrow> error option \<times> cluster" where
  "configmap_Create ns name d k =
     (if readonly k then (Some (Error ''forbidden''), k)
      else if objects k (ns, name) \<noteq> None then (Some (Error ''already exists''), k)
      else (None, k\<lparr>objects := (objects k)((ns, name) \<mapsto> d)\<rparr>))"

definition configmap_Update :: "string \<Rightarrow> string \<Rightarrow> (string \<rightharpoonup> string) \<Rightarrow> cluster
    \<Rightarrow> error option \<times> cluster" where
  "configmap_Update ns name d k =
     (if readonly k then (Some (Error ''forbidden''), k)
      else if objects k (ns, name) = None then (Some (Error ''not found''), k)
      else (None, k\<lparr>objects := (objects k)((ns, name) \<mapsto> d)\<rparr>))"

fun configmap_loop :: "nat \<Rightarrow> lib \<Rightarrow> Client \<Rightarrow> Config \<Rightarrow> cluster \<Rightarrow> world
    \<Rightarrow> status option \<times> world" where
  "configmap_loop 0 L client cfg k w = (Some Running, w\<lparr>kube := Some k\<rparr>)"
| "configmap_loop (Suc n) L client cfg k w =
     (case getTargets L client cfg w of
        (Inl err, w1) \<Rightarrow> (None, w1\<lparr>kube := Some k\<rparr>)
      | (Inr c, w1) \<Rightarrow>
          (case configmap_Update (NameSpace cfg) (ConfigMap cfg) [''targets.yml'' \<mapsto> c] k of
             (Some err, k') \<Rightarrow> (Some (Exited 1), w1\<lparr>kube := Some k'\<rparr>)
           | (None, k') \<Rightarrow> configmap_loop n L client cfg k' (time_Sleep (Sleep cfg) w1)))"

definition main_configmap :: "nat \<Rightarrow> lib \<Rightarrow> Client \<Rightarrow> Config \<Rightarrow> world
    \<Rightarrow> status option \<times> world" where
  "main_configmap n L client cfg w =
     (case kube w of
        None \<Rightarrow> (Some (Panicked ''unable to load in-cluster configuration''), w)
      | Some k \<Rightarrow>
          (case configmap_Get (NameSpace cfg) (ConfigMap cfg) k of
             Inr d \<Rightarrow> configmap_loop n L client cfg k w
           | Inl err \<Rightarrow>
               (case configmap_Create (NameSpace cfg) (ConfigMap cfg) [''targets.yml'' \<mapsto> []] k of
                  (Some err', k') \<Rightarrow> (Some (Exited 1), w\<lparr>kube := Some k'\<rparr>)
                | (None, k') \<Rightarrow> configmap_loop n L client cfg k' w)))"

definition main :: "nat \<Rightarrow> lib \<Rightarrow> Client \<Rightarrow> Config \<Rightarrow> world \<Rightarrow> status \<times> world" where
  "main n L client cfg w =
     (case (if Output cfg = ''stdout'' then main_stdout L client cfg w else (None, w)) of
        (Some s, w1) \<Rightarrow> (s, w1)
      | (None, w1) \<Rightarrow>
          (case (if Output cfg = ''file'' then main_file n L client cfg w1 else (None, w1)) of
             (Some s, w2) \<Rightarrow> (s, w2)
           | (None, w2) \<Rightarrow>
               (case (if Output cfg = ''configmap'' then main_configmap n L client cfg w2
                      else (None, w2)) of
                  (Some s, w3) \<Rightarrow> (s, w3)
                | (None, w3) \<Rightarrow> (Exited 0, w3))))"

text \<open>The process: \<open>init\<close>, then \<open>main\<close> unless \<open>init\<close> was fatal.\<close>

definition process :: "nat \<Rightarrow> lib \<Rightarrow> Config \<Rightarrow> world \<Rightarrow> status \<times> world" where
  "process n L cfg w =
     (case init L cfg w of
        Inl err \<Rightarrow> (Exited 1, w)
      | Inr client \<Rightarrow> main n L client cfg w)"

section \<open>Sink selection in the outputs package: Setup\<close>

text \<open>
  \<open>Setup\<close> switches on \<open>options.Name\<close>. The constructors of the file, ConfigMap and
  external-services sinks are in other files of the package: they are parameters, each
  returning its sink or an error.
\<close>

record Options =
  Name :: string
  FilePath :: string
  ConfigMapName :: string
  Namespace :: string
  ObjectLabels :: "string \<rightharpoonup> string"

datatype ('f, 'c, 'e) Output_sink =
  OutputStdout | OutputFile 'f | OutputK8SConfigMap 'c | OutputK8SExternalService 'e

definition Setup :: "(string \<Rightarrow> error + 'f) \<Rightarrow> (string \<Rightarrow> string \<Rightarrow> error + 'c)
    \<Rightarrow> (string \<Rightarrow> (string \<rightharpoonup> string) \<Rightarrow> error + 'e) \<Rightarrow> Options
    \<Rightarrow> error + ('f, 'c, 'e) Output_sink" where
  "Setup setupOutputFile setupOutputK8SConfigMap setupOutputK8SExternalService options =
     (if Name options = ''stdout'' then Inr OutputStdout
      else if Name options = ''file'' then
        map_sum id OutputFile (setupOutputFile (FilePath options))
      else if Name options = ''configmap'' then
        map_sum id OutputK8SConfigMap
          (setupOutputK8SConfigMap (Namespace options) (ConfigMapName options))
      else if Name options = ''external-services'' then
        map_sum id OutputK8SExternalService
          (setupOutputK8SExternalService (Namespace options) (ObjectLabels options))
      else if Name options = [] then Inl (Error ''no output defined'')
      else Inl (Error (''unknown output: '' @ [CHR 0x60] @ Name options @ [CHR 0x27])))"

section \<open>Reading a JSON query document\<close>

text \<open>
  What the inventory service has to read from the request body: a JSON object (RFC 8259)
  with the one member \<open>query\<close>, whose value is a string. \<open>json_query_object\<close> reads such a
  document and returns the string it encodes, and \<open>None\<close> for any other text. This is the
  yardstick for the body \<open>getNodes\<close> builds, not code of the program.
\<close>

definition json_ws :: "char \<Rightarrow> bool" where
  "json_ws c = (c = CHR '' '' \<or> c = CHR 0x09 \<or> c = CHR 0x0A \<or> c = CHR 0x0D)"

definition skip_ws :: "string \<Rightarrow> string" where
  "skip_ws s = dropWhile json_ws s"

definition json_escape :: "char \<Rightarrow> char option" where
  "json_escape e =
     (if e = dq then Some dq
      else if e = CHR 0x5C then Some (CHR 0x5C)
      else if e = CHR ''/'' then Some (CHR ''/'')
      else if e = CHR ''b'' then Some (CHR 0x08)
      else if e = CHR ''f'' then Some (CHR 0x0C)
      else if e = CHR ''n'' then Some (CHR 0x0A)
      else if e = CHR ''r'' then Some (CHR 0x0D)
      else if e = CHR ''t'' then Some (CHR 0x09)
      else None)"

text \<open>
  A \<open>\u\<close> escape, as the UTF-8 bytes of its code point (the halves of a surrogate pair
  are not read).
\<close>

definition utf8 :: "nat \<Rightarrow> string option" where
  "utf8 n =
     (if n < 128 then Some [char_of n]
      else if n < 2048 then Some [char_of (192 + n div 64), char_of (128 + n mod 64)]
      else if 55296 \<le> n \<and> n < 57344 then None
      else Some [char_of (224 + n div 4096), char_of (128 + (n div 64) mod 64),
                 char_of (128 + n mod 64)])"

definition json_u4 :: "string \<Rightarrow> (string \<times> string) option" where
  "json_u4 s =
     (case s of
        a # b # c # d # rest \<Rightarrow>
          if ishex a \<and> ishex b \<and> ishex c \<and> ishex d then
            (case utf8 (((unhex a * 16 + unhex b) * 16 + unhex c) * 16 + unhex d) of
               None \<Rightarrow> None
             | Some bytes \<Rightarrow> Some (bytes, rest))
          else None
      | _ \<Rightarrow> None)"

text \<open>A string literal after its opening quote: the string it encodes, and what follows.\<close>

fun json_string_tail :: "nat \<Rightarrow> string \<Rightarrow> (string \<times> string) option" where
  "json_string_tail skip [] = None"
| "json_string_tail (Suc k) (c # cs) =
     (case json_string_tail k cs of
        None \<Rightarrow> None
      | Some (s, r) \<Rightarrow> Some (s, r))"
| "json_string_tail 0 (c # cs) =
     (if c = dq then Some ([], cs)
      else if byte c < 32 then None
      else if c = CHR 0x5C then
        (case cs of
           [] \<Rightarrow> None
         | e # rest \<Rightarrow>
             if e = CHR ''u'' then
               (case json_u4 rest of
                  None \<Rightarrow> None
                | Some (bytes, rest') \<Rightarrow>
                    (case json_string_tail 5 cs of
                       None \<Rightarrow> None
                     | Some (s, r) \<Rightarrow> Some (bytes @ s, r)))
             else
               (case json_escape e of
                  None \<Rightarrow> None
                | Some d \<Rightarrow>
                    (case json_string_tail 1 cs of
                       None \<Rightarrow> None
                     | Some (s, r) \<Rightarrow> Some (d # s, r))))
      else
        (case json_string_tail 0 cs of
           None \<Rightarrow> None
         | Some (s, r) \<Rightarrow> Some (c # s, r)))"

definition json_query_object :: "string \<Rightarrow> string option" where
  "json_query_object s =
     (case skip_ws s of
        [] \<Rightarrow> None
      | c1 # s1 \<Rightarrow>
          if c1 \<noteq> CHR ''{'' then None
          else
            (case skip_ws s1 of
               [] \<Rightarrow> None
             | c2 # s2 \<Rightarrow>
                 if c2 \<noteq> dq then None
                 else
                   (case json_string_tail 0 s2 of
                      None \<Rightarrow> None
                    | Some (key, s3) \<Rightarrow>
                        if key \<noteq> ''query'' then None
                        else
                          (case skip_ws s3 of
                             [] \<Rightarrow> None
                           | c4 # s4 \<Rightarrow>
                               if c4 \<noteq> CHR '':'' then None
                               else
                                 (case skip_ws s4 of
                                    [] \<Rightarrow> None
                                  | c5 # s5 \<Rightarrow>
                                      if c5 \<noteq> dq then None
                                      else
                                        (case json_string_tail 0 s5 of
                                           None \<Rightarrow> None
                                         | Some (v, s6) \<Rightarrow>
                                             (case skip_ws s6 of
                                                [] \<Rightarrow> None
                                              | c7 # s7 \<Rightarrow>
                                                  if c7 = CHR ''}'' \<and> skip_ws s7 = []
                                                  then Some v else None)))))))"

text \<open>A query that needs no escaping inside a JSON string literal.\<close>

definition plain_query :: "string \<Rightarrow> bool" where
  "plain_query q = (\<forall>c \<in> set q. c \<noteq> dq \<and> c \<noteq> CHR 0x5C \<and> 32 \<le> byte c)"

section \<open>Decoding the inventory's answer\<close>




section \<open>The Serializer\<close>

text \<open>
  Modelled from the spec: the Serializer. \<open>getTargets\<close> calls \<open>yaml.Marshal\<close> of
  gopkg.in/yaml.v1 (main.go, line 153), and that package is not under src/. The spec
  (4.3 and 6) has the Serializer render the sequence of static target configs as a
  document, a sequence of records with the two keys \<open>targets\<close> and \<open>labels\<close>, the labels
  being \<open>certname\<close>, \<open>host\<close>, \<open>metrics_path\<close>, \<open>job\<close> and \<open>scheme\<close>; it is a pure function
  and does not fail on such input. The model writes the document as YAML text: one block
  entry per static target config, and the flow sequence \<open>[]\<close> when there is none (a block
  sequence without entries has no text of its own).
\<close>

definition label_keys :: "string list" where
  "label_keys = [''certname'', ''host'', ''metrics_path'', ''job'', ''scheme'']"

definition render_entry :: "StaticConfig \<Rightarrow> string" where
  "render_entry c =
     ''- targets:'' @ [CHR 0x0A]
     @ concat (map (\<lambda>t. ''  - '' @ t @ [CHR 0x0A]) (Targets c))
     @ ''  labels:'' @ [CHR 0x0A]
     @ concat (map (\<lambda>k. case Labels c k of
                           None \<Rightarrow> []
                         | Some v \<Rightarrow> ''    '' @ k @ '': '' @ v @ [CHR 0x0A]) label_keys)"

definition Serializer :: "StaticConfig list \<Rightarrow> error + string" where
  "Serializer cs =
     (case cs of
        [] \<Rightarrow> Inr (''[]'' @ [CHR 0x0A])
      | c # cs' \<Rightarrow> Inr (concat (map render_entry cs)))"

text \<open>
  A well-formed empty document: the text of a sequence without entries, that is the two
  brackets of a flow sequence with nothing but white space around and between them.
\<close>

definition empty_document :: "string \<Rightarrow> bool" where
  "empty_document doc = (filter (\<lambda>c. \<not> json_ws c) doc = ''[]'')"

section \<open>Example inputs\<close>

definition node1 :: Node where
  "node1 = \<lparr>Certname = ''node1'', Exporters = [(''job1'', ''http://1.2.3.4:9100/metrics'')]\<rparr>"

definition node2 :: Node where
  "node2 = \<lparr>Certname = ''node2'',
     Exporters = [(''node'', ''http://node2:9100/metrics''),
                  (''apache'', ''https://node2:9117/metrics'')]\<rparr>"

definition bad_node :: Node where
  "bad_node = \<lparr>Certname = ''node3'', Exporters = [(''job1'', ''::bad-url'')]\<rparr>"

definition hostless_node :: Node where
  "hostless_node = \<lparr>Certname = ''node4'', Exporters = [(''job1'', ''localhost:9100/metrics'')]\<rparr>"

text \<open>
  Stand-ins for the libraries: the decoder knows three response bodies, the serializer
  writes one line per entry.
\<close>

definition example_lib :: lib where
  "example_lib =
     \<lparr>json_Unmarshal = (\<lambda>body.
        if body = ''[]'' then Inr []
        else if body = ''[node1,node2]'' then Inr [node1, node2]
        else if body = ''[node3]'' then Inr [bad_node]
        else Inl (Error ''invalid character'')),
      yaml_Marshal = (\<lambda>cs. Inr (concat (map (\<lambda>c. ''- targets: '' @ concat (Targets c) @ ''; '') cs))),
      tls_X509KeyPair = (\<lambda>certPEM keyPEM. Inr certPEM),
      fmt_Printf = (\<lambda>format. format)\<rparr>"

definition example_cfg :: Config where
  "example_cfg =
     \<lparr>Version = False, PuppetDBURL = ''http://puppetdb:8080'',
      CertFile = ''certs/client.pem'', KeyFile = ''certs/client.key'',
      CACertFile = ''certs/cacert.pem'', SSLSkipVerify = False,
      Query = ''nodes {}'', Output = ''stdout'',
      File = ''/etc/prometheus/targets.yml'',
      ConfigMap = ''prometheus-puppetdb'', NameSpace = ''default'',
      Sleep = 5000000000, Manpage = False\<rparr>"

definition example_client :: Client where
  "example_client = \<lparr>TLSClientConfig = None\<rparr>"




text \<open>A PQL query with a string literal in double quotes.\<close>

definition quoted_query :: string where
  "quoted_query = ''nodes { certname = '' @ [dq] @ ''node1'' @ [dq] @ '' }''"

text \<open>A world whose network answers once, with the given status code and body.\<close>

definition example_world :: "nat \<Rightarrow> string \<Rightarrow> world" where
  "example_world code body =
     \<lparr>replies = [Inr \<lparr>StatusCode = code, ResponseBody = Inr body\<rparr>], requests = [],
      dirs = {''/''}, files = Map.empty, stdout = [], sleeps = [], kube = None\<rparr>"

section \<open>Facts about the library models\<close>

lemma parse_node1_url:
  "url_Parse ''http://1.2.3.4:9100/metrics'' =
     Inr (empty_URL\<lparr>Scheme := ''http'', Host := ''1.2.3.4:9100'', Path := ''/metrics''\<rparr>)"
  by code_simp

lemma parse_hostless_url:
  "url_Parse ''localhost:9100/metrics'' =
     Inr (empty_URL\<lparr>Scheme := ''localhost'', Opaque := ''9100/metrics''\<rparr>)"
  by code_simp

lemma parse_bad_url: "url_Parse ''::bad-url'' = Inl (Error ''missing protocol scheme'')"
  by code_simp

lemma parse_ftp_url:
  "url_Parse ''ftp://puppetdb:8080'' = Inr (empty_URL\<lparr>Scheme := ''ftp'', Host := ''puppetdb:8080''\<rparr>)"
  by code_simp

lemma parse_example_base:
  "url_Parse ''http://puppetdb:8080'' = Inr (empty_URL\<lparr>Scheme := ''http'', Host := ''puppetdb:8080''\<rparr>)"
  by code_simp

lemma sendable_example_endpoint: "sendable ''http://puppetdb:8080/pdb/query/v4''"
  by code_simp


section \<open>The mapping loops\<close>

lemma range_Exporters_ok:
  "\<forall>(j, t) \<in> set es. parses t \<Longrightarrow>
   range_Exporters node es acc = Inr (acc @ map (\<lambda>e. emitted (node, e)) es)"
  by (induction es arbitrary: acc) (auto simp: parses_def emitted_def split: sum.splits)

lemma range_nodes_ok:
  "\<forall>node \<in> set nodes. \<forall>(j, t) \<in> set (Exporters node). parses t \<Longrightarrow>
   range_nodes nodes acc = Inr (acc @ map emitted (exporter_pairs nodes))"
  by (induction nodes arbitrary: acc) (auto simp: exporter_pairs_def range_Exporters_ok comp_def)

lemma range_Exporters_fail:
  "\<exists>(j, t) \<in> set es. \<not> parses t \<Longrightarrow> \<exists>err. range_Exporters node es acc = Inl err"
  by (induction es arbitrary: acc) (auto simp: parses_def split: sum.splits)

lemma range_Exporters_Inl:
  "range_Exporters node es acc = Inl err \<Longrightarrow> \<exists>(j, t) \<in> set es. url_Parse t = Inl err"
  by (induction es arbitrary: acc) (auto simp: parses_def split: sum.splits)

lemma range_nodes_fail:
  "\<exists>node \<in> set nodes. \<exists>(j, t) \<in> set (Exporters node). \<not> parses t \<Longrightarrow>
   \<exists>err. range_nodes nodes acc = Inl err \<and>
     (\<exists>node \<in> set nodes. \<exists>(j, t) \<in> set (Exporters node). url_Parse t = Inl err)"
proof (induction nodes arbitrary: acc)
  case Nil
  then show ?case by simp
next
  case (Cons node nodes)
  show ?case
  proof (cases "range_Exporters node (Exporters node) acc")
    case (Inl err)
    then show ?thesis using range_Exporters_Inl[OF Inl] by auto
  next
    case (Inr acc')
    have "\<not> (\<exists>(j, t) \<in> set (Exporters node). \<not> parses t)"
      using range_Exporters_fail[of "Exporters node" node acc] Inr by auto
    with Cons.prems have "\<exists>node \<in> set nodes. \<exists>(j, t) \<in> set (Exporters node). \<not> parses t"
      by auto
    from Cons.IH[OF this, of acc'] obtain err where
      e: "range_nodes nodes acc' = Inl err"
         "\<exists>n \<in> set nodes. \<exists>(j, t) \<in> set (Exporters n). url_Parse t = Inl err"
      by blast
    from e(1) Inr have "range_nodes (node # nodes) acc = Inl err" by simp
    moreover from e(2)
    have "\<exists>n \<in> set (node # nodes). \<exists>(j, t) \<in> set (Exporters n). url_Parse t = Inl err"
      by auto
    ultimately show ?thesis by blast
  qed
qed

lemma mapTargets_Inr:
  assumes "mapTargets nodes = Inr fileSdConfig"
  shows "(\<forall>node \<in> set nodes. \<forall>(j, t) \<in> set (Exporters node). parses t)
       \<and> fileSdConfig = map emitted (exporter_pairs nodes)"
proof -
  have all: "\<forall>node \<in> set nodes. \<forall>(j, t) \<in> set (Exporters node). parses t"
  proof (rule ccontr)
    assume "\<not> ?thesis"
    then have "\<exists>node \<in> set nodes. \<exists>(j, t) \<in> set (Exporters node). \<not> parses t" by auto
    from range_nodes_fail[OF this, of "[]"] assms show False by (auto simp: mapTargets_def)
  qed
  from range_nodes_ok[OF all, of "[]"] assms show ?thesis using all by (simp add: mapTargets_def)
qed

lemma length_exporter_pairs:
  "length (exporter_pairs nodes) = sum_list (map (\<lambda>node. length (Exporters node)) nodes)"
  by (induction nodes) (simp_all add: exporter_pairs_def)

lemma emitted_Targets:
  "parses t \<Longrightarrow> \<exists>url. url_Parse t = Inr url \<and> Targets (emitted (node, j, t)) = [Host url]"
  by (auto simp: parses_def emitted_def staticConfig_def split: sum.splits)

lemma exporter_pairs_mem:
  "(node, j, t) \<in> set (exporter_pairs nodes) \<Longrightarrow> node \<in> set nodes \<and> (j, t) \<in> set (Exporters node)"
  by (auto simp: exporter_pairs_def)

text \<open>With distinct job names, the entries of a node are the entries of its Go map.\<close>

lemma wf_Node_count:
  assumes "wf_Node node"
  shows "length (Exporters node) = card (dom (map_of (Exporters node)))"
proof -
  from assms have d: "distinct (map fst (Exporters node))" by (simp add: wf_Node_def)
  have "card (dom (map_of (Exporters node))) = card (set (map fst (Exporters node)))"
    by (simp add: dom_map_of_conv_image_fst)
  also have "\<dots> = length (map fst (Exporters node))" using d by (rule distinct_card)
  finally show ?thesis by simp
qed

section \<open>The Inventory Client\<close>

lemma getNodes_reply:
  assumes "sendable (puppetdb @ ''/pdb/query/v4'')"
      and "replies w = Inr resp # rest"
      and "ResponseBody resp = Inr body"
    shows "getNodes L client puppetdb query w =
       (json_Unmarshal L body,
        w\<lparr>requests := requests w @
             [\<lparr>Method = ''POST'', RequestURL = puppetdb @ ''/pdb/query/v4'',
               Header = [(''Content-Type'', ''application/json'')],
               Body = query_form query\<rparr>],
          replies := rest\<rparr>)"
  using assms
  by (auto simp: getNodes_def http_NewRequest_def client_Do_def sendable_def Let_def
      split: sum.splits)

text \<open>
  Whatever the outcome, a call of \<open>getNodes\<close> whose URL the transport does not refuse
  sends exactly one request through \<open>client.Do\<close>: a POST to the query endpoint with the
  JSON content type.
\<close>

lemma getNodes_sends_one_post:
  assumes "sendable (puppetdb @ ''/pdb/query/v4'')"
  shows "requests (snd (getNodes L client puppetdb query w)) =
       requests w @
         [\<lparr>Method = ''POST'', RequestURL = puppetdb @ ''/pdb/query/v4'',
           Header = [(''Content-Type'', ''application/json'')],
           Body = query_form query\<rparr>]"
  using assms
  by (auto simp: getNodes_def http_NewRequest_def client_Do_def sendable_def Let_def
      split: sum.splits list.splits)

text \<open>Fetching touches neither directories nor files.\<close>

lemma client_Do_fs:
  "dirs (snd (client_Do client req w)) = dirs w \<and> files (snd (client_Do client req w)) = files w"
  by (auto simp: client_Do_def split: sum.splits list.splits)

lemma getNodes_fs:
  "dirs (snd (getNodes L client puppetdb query w)) = dirs w
   \<and> files (snd (getNodes L client puppetdb query w)) = files w"
proof (cases "http_NewRequest ''POST'' (puppetdb @ ''/pdb/query/v4'') (query_form query)")
  case (Inl err)
  then show ?thesis by (simp add: getNodes_def)
next
  case (Inr req0)
  let ?req = "req0\<lparr>Header := Header req0 @ [(''Content-Type'', ''application/json'')]\<rparr>"
  obtain r w' where d: "client_Do client ?req w = (r, w')" by (cases "client_Do client ?req w")
  from client_Do_fs[of client ?req w] d have "dirs w' = dirs w \<and> files w' = files w" by simp
  with Inr d show ?thesis by (auto simp: getNodes_def Let_def split: sum.splits)
qed

lemma getTargets_fs:
  "dirs (snd (getTargets L client cfg w)) = dirs w
   \<and> files (snd (getTargets L client cfg w)) = files w"
proof -
  obtain r w' where g: "getNodes L client (PuppetDBURL cfg) (Query cfg) w = (r, w')"
    by (cases "getNodes L client (PuppetDBURL cfg) (Query cfg) w")
  from getNodes_fs[of L client "PuppetDBURL cfg" "Query cfg" w] g
  have "dirs w' = dirs w \<and> files w' = files w" by simp
  with g show ?thesis by (auto simp: getTargets_def split: sum.splits)
qed


text \<open>
  The cycles of the file sink make no directory: \<open>os.MkdirAll\<close> is called once, before
  the loop.
\<close>

lemma file_loop_dirs: "dirs (snd (file_loop n L client cfg w)) = dirs w"
proof (induction n arbitrary: w)
  case 0
  then show ?case by simp
next
  case (Suc n)
  obtain r w1 where g: "getTargets L client cfg w = (r, w1)"
    by (cases "getTargets L client cfg w")
  from getTargets_fs[of L client cfg w] g have d1: "dirs w1 = dirs w" by simp
  show ?case
  proof (cases r)
    case (Inl err)
    with g d1 show ?thesis by simp
  next
    case (Inr c)
    obtain e w2 where wf: "ioutil_WriteFile (File cfg) c w1 = (e, w2)"
      by (cases "ioutil_WriteFile (File cfg) c w1")
    then have d2: "dirs w2 = dirs w1"
      by (auto simp: ioutil_WriteFile_def split: if_splits)
    show ?thesis
    proof (cases e)
      case None
      with g Inr wf d1 d2 Suc.IH[of "time_Sleep (Sleep cfg) w2"] show ?thesis
        by (simp add: time_Sleep_def)
    next
      case (Some err)
      with g Inr wf d1 d2 show ?thesis by simp
    qed
  qed
qed

lemma json_string_tail_plain:
  "plain_query q \<Longrightarrow> json_string_tail 0 (q @ dq # r) = Some (q, r)"
  by (induction q) (auto simp: plain_query_def)

text \<open>A query without quotes, backslashes and control bytes is encoded as it should be.\<close>

lemma query_form_plain:
  assumes "plain_query q"
  shows "json_query_object (query_form q) = Some q"
proof -
  have k: "plain_query ''query''" by code_simp
  have key: "json_string_tail 0 (''query'' @ dq # r) = Some (''query'', r)" for r
    using json_string_tail_plain[OF k] .
  have val: "json_string_tail 0 (q @ dq # r) = Some (q, r)" for r
    using json_string_tail_plain[OF assms] .
  have ws: "\<not> json_ws (CHR ''{'')" "\<not> json_ws dq" "\<not> json_ws (CHR '':'')" "\<not> json_ws (CHR ''}'')"
    by (simp_all add: json_ws_def dq_def)
  have "query_form q = CHR ''{'' # dq # ''query'' @ dq # CHR '':'' # dq # q @ dq # ''}''"
    by (simp add: query_form_def)
  then show ?thesis
    using key[of "CHR '':'' # dq # q @ dq # ''}''"] val[of "''}''"] ws
    by (simp add: json_query_object_def skip_ws_def)
qed

section \<open>Sink selection\<close>

lemma Setup_unknown:
  assumes "Name options \<notin> {''stdout'', ''file'', ''configmap'', ''external-services''}"
  shows "\<exists>err. Setup f c e options = Inl err"
  using assms by (simp add: Setup_def)

lemma Setup_stdout: "Name options = ''stdout'' \<Longrightarrow> Setup f c e options = Inr OutputStdout"
  by (simp add: Setup_def)

lemma main_other_output:
  assumes "Output cfg \<notin> {''stdout'', ''file'', ''configmap''}"
  shows "main n L client cfg w = (Exited 0, w)"
  using assms by (simp add: main_def)

text \<open>For each of the three names \<open>main\<close> knows, the block of that name runs and no other.\<close>

lemma main_stdout_only:
  assumes "Output cfg = ''stdout''"
  shows "main n L client cfg w =
     (case main_stdout L client cfg w of
        (Some s, w') \<Rightarrow> (s, w')
      | (None, w') \<Rightarrow> (Exited 0, w'))"
  using assms by (simp add: main_def split: prod.splits option.splits)

lemma main_file_only:
  assumes "Output cfg = ''file''"
  shows "main n L client cfg w =
     (case main_file n L client cfg w of
        (Some s, w') \<Rightarrow> (s, w')
      | (None, w') \<Rightarrow> (Exited 0, w'))"
  using assms by (simp add: main_def split: prod.splits option.splits)

lemma main_configmap_only:
  assumes "Output cfg = ''configmap''"
  shows "main n L client cfg w =
     (case main_configmap n L client cfg w of
        (Some s, w') \<Rightarrow> (s, w')
      | (None, w') \<Rightarrow> (Exited 0, w'))"
  using assms by (simp add: main_def split: prod.splits option.splits)

section \<open>The claims\<close>

text \<open>
  C1. When no exporter URL of the inventory fails to parse, the mapping loops of
  \<open>getTargets\<close> return one static target config per (node, exporter) pair, in the order
  of the loops: the number of entries is the total number of exporter entries of all
  nodes, and every entry has exactly one target.
\<close>

theorem C1_one_config_per_exporter:
  assumes "\<forall>node \<in> set nodes. \<forall>(jobName, target) \<in> set (Exporters node). parses target"
  shows "\<exists>fileSdConfig. mapTargets nodes = Inr fileSdConfig
           \<and> fileSdConfig = map emitted (exporter_pairs nodes)
           \<and> length fileSdConfig = sum_list (map (\<lambda>node. length (Exporters node)) nodes)
           \<and> (\<forall>c \<in> set fileSdConfig. length (Targets c) = 1)"
proof -
  from range_nodes_ok[OF assms, of "[]"]
  have r: "mapTargets nodes = Inr (map emitted (exporter_pairs nodes))"
    by (simp add: mapTargets_def)
  have one: "length (Targets c) = 1" if "c \<in> set (map emitted (exporter_pairs nodes))" for c
  proof -
    from that obtain node j t where
      p: "(node, j, t) \<in> set (exporter_pairs nodes)" and c: "c = emitted (node, j, t)"
      by auto
    from exporter_pairs_mem[OF p] assms have "parses t" by auto
    from emitted_Targets[OF this, of node j] c show ?thesis by auto
  qed
  from r one show ?thesis by (simp add: length_exporter_pairs)
qed

theorem C1_witness:
  "\<exists>fileSdConfig. mapTargets [node1, node2] = Inr fileSdConfig \<and> length fileSdConfig = 3
     \<and> map Targets fileSdConfig = [[''1.2.3.4:9100''], [''node2:9100''], [''node2:9117'']]"
proof -
  have h: "\<forall>node \<in> set [node1, node2]. \<forall>(jobName, target) \<in> set (Exporters node). parses target"
    by code_simp
  have t: "map Targets (map emitted (exporter_pairs [node1, node2]))
      = [[''1.2.3.4:9100''], [''node2:9100''], [''node2:9117'']]"
    by code_simp
  have n: "sum_list (map (\<lambda>node. length (Exporters node)) [node1, node2]) = 3"
    by (simp add: node1_def node2_def)
  from C1_one_config_per_exporter[OF h] t n show ?thesis by auto
qed

text \<open>
  C2. When the inventory was fetched and an exporter URL in it fails to parse,
  \<open>getTargets\<close> returns that parse error and no bytes: the mapping stops at the first
  failing URL, nothing is serialized, and the entries mapped before it are dropped.
\<close>

theorem C2_parse_failure_aborts:
  assumes "getNodes L client (PuppetDBURL cfg) (Query cfg) w = (Inr nodes, w')"
      and "\<exists>node \<in> set nodes. \<exists>(jobName, target) \<in> set (Exporters node). \<not> parses target"
    shows "\<exists>err. mapTargets nodes = Inl err
             \<and> getTargets L client cfg w = (Inl err, w')
             \<and> (\<exists>node \<in> set nodes. \<exists>(jobName, target) \<in> set (Exporters node).
                   url_Parse target = Inl err)"
proof -
  from range_nodes_fail[OF assms(2), of "[]"] obtain err where
    e: "mapTargets nodes = Inl err"
       "\<exists>node \<in> set nodes. \<exists>(jobName, target) \<in> set (Exporters node). url_Parse target = Inl err"
    by (auto simp: mapTargets_def)
  from e(1) assms(1) have "getTargets L client cfg w = (Inl err, w')"
    by (simp add: getTargets_def)
  with e show ?thesis by blast
qed

theorem C2_witness:
  "fst (getTargets example_lib example_client example_cfg (example_world 200 ''[node3]''))
     = Inl (Error ''missing protocol scheme'')"
proof -
  let ?w = "example_world 200 ''[node3]''"
  have p: "sendable (PuppetDBURL example_cfg @ ''/pdb/query/v4'')" by code_simp
  have r: "replies ?w = Inr \<lparr>StatusCode = 200, ResponseBody = Inr ''[node3]''\<rparr> # []"
    by (simp add: example_world_def)
  have u: "json_Unmarshal example_lib ''[node3]'' = Inr [bad_node]"
    by (simp add: example_lib_def)
  from getNodes_reply[OF p r, of "''[node3]''" example_lib example_client "Query example_cfg"] u
  obtain w' where
    g: "getNodes example_lib example_client (PuppetDBURL example_cfg) (Query example_cfg) ?w
          = (Inr [bad_node], w')"
    by auto
  have b: "\<exists>node \<in> set [bad_node]. \<exists>(jobName, target) \<in> set (Exporters node). \<not> parses target"
    by code_simp
  have m: "mapTargets [bad_node] = Inl (Error ''missing protocol scheme'')"
    by (simp add: mapTargets_def bad_node_def parse_bad_url)
  from C2_parse_failure_aborts[OF g b] m show ?thesis by auto
qed

text \<open>
  C3. For the one node \<open>node1\<close> with the exporter \<open>job1\<close> at
  \<open>http://1.2.3.4:9100/metrics\<close>, the mapper returns exactly one static target config: the
  target \<open>1.2.3.4:9100\<close> with the labels certname and host \<open>node1\<close>, metrics_path
  \<open>/metrics\<close>, job \<open>job1\<close> and scheme \<open>http\<close>.
\<close>

theorem C3_node1_example:
  "mapTargets [\<lparr>Certname = ''node1'', Exporters = [(''job1'', ''http://1.2.3.4:9100/metrics'')]\<rparr>]
     = Inr [\<lparr>Targets = [''1.2.3.4:9100''],
             Labels = [''certname'' \<mapsto> ''node1'', ''host'' \<mapsto> ''node1'',
                       ''metrics_path'' \<mapsto> ''/metrics'', ''job'' \<mapsto> ''job1'',
                       ''scheme'' \<mapsto> ''http'']\<rparr>]"
  by (simp add: mapTargets_def parse_node1_url staticConfig_def empty_URL_def)

text \<open>
  C5, as the code has it. For every (node, exporter) pair of an inventory that the mapper
  processes without error, the one target of the emitted config is the \<open>Host\<close> of the
  parsed exporter URL, whatever that is. The mapper does not look at the host: a URL
  that parses without one is emitted with the empty string as its target.
\<close>

theorem C5_target_is_parsed_host:
  assumes "mapTargets nodes = Inr fileSdConfig"
  shows "length fileSdConfig = length (exporter_pairs nodes)
       \<and> (\<forall>i < length fileSdConfig.
            \<exists>url. url_Parse (snd (snd (exporter_pairs nodes ! i))) = Inr url
                \<and> Targets (fileSdConfig ! i) = [Host url])"
proof -
  from mapTargets_Inr[OF assms] have
    all: "\<forall>node \<in> set nodes. \<forall>(j, t) \<in> set (Exporters node). parses t" and
    eq: "fileSdConfig = map emitted (exporter_pairs nodes)"
    by auto
  have "\<exists>url. url_Parse (snd (snd (exporter_pairs nodes ! i))) = Inr url
          \<and> Targets (fileSdConfig ! i) = [Host url]"
    if "i < length fileSdConfig" for i
  proof -
    from that eq have i: "i < length (exporter_pairs nodes)" by simp
    obtain node j t where p: "exporter_pairs nodes ! i = (node, j, t)"
      by (cases "exporter_pairs nodes ! i") auto
    from i p have "(node, j, t) \<in> set (exporter_pairs nodes)" by (metis nth_mem)
    from exporter_pairs_mem[OF this] all have "parses t" by auto
    from emitted_Targets[OF this, of node j] eq i p show ?thesis by simp
  qed
  with eq show ?thesis by simp
qed

theorem C5_witness:
  "length (exporter_pairs [hostless_node]) = 1
   \<and> (\<exists>c. mapTargets [hostless_node] = Inr [c] \<and> Targets c = [[]])"
proof -
  have m: "\<exists>c. mapTargets [hostless_node] = Inr [c]"
    by (simp add: mapTargets_def hostless_node_def parse_hostless_url)
  then obtain c where c: "mapTargets [hostless_node] = Inr [c]" by blast
  have p: "exporter_pairs [hostless_node] ! 0 = (hostless_node, ''job1'', ''localhost:9100/metrics'')"
    by (simp add: exporter_pairs_def hostless_node_def)
  from C5_target_is_parsed_host[OF c] p have "Targets c = [[]]"
    by (auto simp: parse_hostless_url empty_URL_def)
  with c show ?thesis by (simp add: exporter_pairs_def hostless_node_def)
qed

text \<open>
  The claim C5 as stated fails: the exporter URL \<open>localhost:9100/metrics\<close> (a scheme was
  forgotten) parses without error, as the scheme \<open>localhost\<close> with opaque data, and has no
  host. The mapper emits its pair with the empty target.
\<close>

theorem C5_counterexample:
  "mapTargets [\<lparr>Certname = ''node4'', Exporters = [(''job1'', ''localhost:9100/metrics'')]\<rparr>]
     = Inr [\<lparr>Targets = [[]],
             Labels = [''certname'' \<mapsto> ''node4'', ''host'' \<mapsto> ''node4'',
                       ''metrics_path'' \<mapsto> [], ''job'' \<mapsto> ''job1'',
                       ''scheme'' \<mapsto> ''localhost'']\<rparr>]"
  by (simp add: mapTargets_def parse_hostless_url staticConfig_def empty_URL_def)

text \<open>
  C7. A base URL that parses with a scheme other than \<open>http\<close> and \<open>https\<close> is fatal in
  \<open>init\<close>: the message names the scheme, the process exits with code 1, and the world is
  as it was, so no request has been sent. With the scheme \<open>http\<close> \<open>init\<close> returns the
  plain client; with \<open>https\<close> it goes on to load the TLS files, whose outcome is its result.
\<close>

theorem C7_base_url_scheme:
  assumes "url_Parse (PuppetDBURL cfg) = Inr u"
  shows "(Scheme u \<noteq> ''http'' \<and> Scheme u \<noteq> ''https'' \<longrightarrow>
            init L cfg w = Inl (Error (Scheme u @ '' is not a valid http scheme'' @ [CHR 0x0A]))
            \<and> process n L cfg w = (Exited 1, w))
       \<and> (Scheme u = ''http'' \<longrightarrow> init L cfg w = Inr \<lparr>TLSClientConfig = None\<rparr>)
       \<and> (Scheme u = ''https'' \<longrightarrow> init L cfg w = https_client L cfg w)"
  using assms by (simp add: init_def process_def)

theorem C7_witness:
  "init example_lib (example_cfg\<lparr>PuppetDBURL := ''ftp://puppetdb:8080''\<rparr>) (example_world 200 ''[]'')
     = Inl (Error (''ftp is not a valid http scheme'' @ [CHR 0x0A]))
   \<and> process 3 example_lib (example_cfg\<lparr>PuppetDBURL := ''ftp://puppetdb:8080''\<rparr>)
        (example_world 200 ''[]'') = (Exited 1, example_world 200 ''[]'')
   \<and> requests (example_world 200 ''[]'') = []"
proof -
  have p: "url_Parse (PuppetDBURL (example_cfg\<lparr>PuppetDBURL := ''ftp://puppetdb:8080''\<rparr>))
      = Inr (empty_URL\<lparr>Scheme := ''ftp'', Host := ''puppetdb:8080''\<rparr>)"
    by (simp add: parse_ftp_url)
  from C7_base_url_scheme[OF p, of example_lib "example_world 200 ''[]''" 3]
  show ?thesis by (simp add: example_world_def)
qed







text \<open>
  C4 at a query with double quotes. \<open>getNodes\<close> sends one request, and its body is the
  query between fixed pieces of text, without any escaping: the quotes of the query end
  the string literal early, and the body is not a JSON document.
\<close>

theorem C4_quoted_query_body:
  "map Body (requests (snd (getNodes example_lib example_client ''http://puppetdb:8080''
       quoted_query (example_world 200 ''[]'')))) = [query_form quoted_query]
   \<and> json_query_object (query_form quoted_query) = None"
proof -
  have p: "sendable (''http://puppetdb:8080'' @ ''/pdb/query/v4'')" by code_simp
  have "json_query_object (query_form quoted_query) = None" by code_simp
  with getNodes_sends_one_post[OF p, of example_lib example_client quoted_query
      "example_world 200 ''[]''"]
  show ?thesis by (simp add: example_world_def)
qed

text \<open>
  C6 in \<open>main\<close>. An output name that is none of \<open>stdout\<close>, \<open>file\<close> and \<open>configmap\<close> (an
  unknown name, the empty name, and also \<open>external-services\<close>) passes none of the three
  tests of \<open>main\<close>: the process runs no cycle, reports nothing and exits with code 0.
\<close>

theorem C6_main_ignores_unknown_output:
  "main n L client (cfg\<lparr>Output := ''bogus''\<rparr>) w = (Exited 0, w)
   \<and> main n L client (cfg\<lparr>Output := []\<rparr>) w = (Exited 0, w)
   \<and> main n L client (cfg\<lparr>Output := ''external-services''\<rparr>) w = (Exited 0, w)
   \<and> process n example_lib (example_cfg\<lparr>Output := ''bogus''\<rparr>) w = (Exited 0, w)"
  by (simp add: main_def process_def init_def example_cfg_def parse_example_base empty_URL_def)

text \<open>Nodes without exporters add nothing to the sequence that is serialized.\<close>

lemma range_nodes_no_exporters:
  "\<forall>node \<in> set nodes. Exporters node = [] \<Longrightarrow> range_nodes nodes acc = Inr acc"
  by (induction nodes arbitrary: acc) auto

lemma getTargets_no_exporters:
  assumes "getNodes L client (PuppetDBURL cfg) (Query cfg) w = (Inr nodes, w')"
      and "\<forall>node \<in> set nodes. Exporters node = []"
    shows "getTargets L client cfg w = (yaml_Marshal L [], w')"
  using assms range_nodes_no_exporters[OF assms(2), of "[]"]
  by (simp add: getTargets_def mapTargets_def)

text \<open>
  C9. Serializing the empty sequence does not fail and gives a well-formed empty
  document. In \<open>getTargets\<close>: when the inventory answers with no node, the mapper hands the
  empty sequence to the Serializer, and \<open>getTargets\<close> returns that document and no error.
\<close>

theorem C9_empty_sequence:
  assumes "getNodes L client (PuppetDBURL cfg) (Query cfg) w = (Inr [], w')"
      and "yaml_Marshal L = Serializer"
    shows "\<exists>doc. Serializer [] = Inr doc \<and> empty_document doc
             \<and> getTargets L client cfg w = (Inr doc, w')"
proof -
  have e: "empty_document (''[]'' @ [CHR 0x0A])" by code_simp
  have s: "Serializer [] = Inr (''[]'' @ [CHR 0x0A])" by (simp add: Serializer_def)
  from assms have "getTargets L client cfg w = (Inr (''[]'' @ [CHR 0x0A]), w')"
    by (simp add: getTargets_def mapTargets_def Serializer_def)
  with e s show ?thesis by blast
qed

theorem C9_witness:
  "fst (getTargets (example_lib\<lparr>yaml_Marshal := Serializer\<rparr>) example_client example_cfg
          (example_world 200 ''[]'')) = Inr (''[]'' @ [CHR 0x0A])"
proof -
  let ?L = "example_lib\<lparr>yaml_Marshal := Serializer\<rparr>"
  let ?w = "example_world 200 ''[]''"
  have p: "sendable (PuppetDBURL example_cfg @ ''/pdb/query/v4'')" by code_simp
  have r: "replies ?w = Inr \<lparr>StatusCode = 200, ResponseBody = Inr ''[]''\<rparr> # []"
    by (simp add: example_world_def)
  have b: "ResponseBody \<lparr>StatusCode = 200, ResponseBody = Inr ''[]''\<rparr> = Inr ''[]''"
    by simp
  have u: "json_Unmarshal ?L ''[]'' = Inr []" by (simp add: example_lib_def)
  from getNodes_reply[where L = ?L and client = example_client and query = "Query example_cfg",
         OF p r b] u
  obtain w' where
    g: "getNodes ?L example_client (PuppetDBURL example_cfg) (Query example_cfg) ?w = (Inr [], w')"
    by auto
  have m: "yaml_Marshal ?L = Serializer" by simp
  from C9_empty_sequence[OF g m] show ?thesis by (auto simp: Serializer_def)
qed

end
